theory Spec2Isabelle
  imports Complex_Main
begin

section \<open>The live balance streaming session of LiveBalanceScreen.tsx\<close>

text \<open>
  The development embeds the WebSocket streaming logic of the second (reconnecting)
  revision of \<^verbatim>\<open>src/screens/LiveBalanceScreen.tsx\<close> (the component starting at line 380
  of the file) and the helpers of \<^verbatim>\<open>src/services/helius.ts\<close> it calls.

  The component is a set of event handlers over React state, refs and the platform's
  sockets and timers. Each handler becomes a function on a record \<open>world\<close> holding
  \<^item> the React state (\<open>address\<close>, \<open>isStreaming\<close>, \<open>currentBalance\<close>, \<open>balanceUpdates\<close>,
    \<open>isLoading\<close>, \<open>connectionStatus\<close>, \<open>reconnectAttempts\<close>),
  \<^item> the refs (\<open>subscriptionIdRef\<close>, \<open>wsRef\<close>, \<open>pingIntervalRef\<close>, \<open>reconnectTimeoutRef\<close>,
    \<open>currentAddressRef\<close>, \<open>isIntentionalCloseRef\<close>),
  \<^item> the platform: the sockets created so far with their ready state, the pending
    timeouts and intervals, the suspended continuation of \<open>handleStartStreaming\<close>, and
    the \<open>trace\<close> of calls the component made to the outside (alerts, HTTP requests,
    socket and timer calls).
  Console output is not part of the trace. An exception is a value of \<open>js_error\<close>;
  a handler that can throw returns the world it leaves behind together with the
  exception that escaped, if any.
\<close>

subsection \<open>JavaScript values\<close>

text \<open>
  The value \<open>JSON.parse\<close> returns, and the values read from it. \<open>JUndefined\<close> is what
  reading a missing property gives. A number is held as the rational the double
  denotes; the handlers compare numbers and pass them on, and do no arithmetic on them
  but the division of \<open>lamportsToSol\<close>.
\<close>

datatype jsval =
    JUndefined
  | JNull
  | JBool bool
  | JNum rat
  | JStr string
  | JArr "jsval list"
  | JObj "(string \<times> jsval) list"

datatype js_error = SyntaxError | TypeError | InvalidStateError | Error string

text \<open>Reading a property of \<open>undefined\<close> or \<open>null\<close> throws a TypeError.\<close>

fun nullish :: "jsval \<Rightarrow> bool" where
  "nullish JUndefined = True"
| "nullish JNull = True"
| "nullish _ = False"

text \<open>
  \<open>x.k\<close> for a value that is neither \<open>undefined\<close> nor \<open>null\<close>, and for the property
  names the handlers read (id, result, method, params, value, context, slot, lamports):
  none of them is a property of a number, string, boolean or array.
\<close>

fun get :: "jsval \<Rightarrow> string \<Rightarrow> jsval" where
  "get (JObj kvs) k = (case map_of kvs k of None \<Rightarrow> JUndefined | Some v \<Rightarrow> v)"
| "get _ k = JUndefined"

fun truthy :: "jsval \<Rightarrow> bool" where
  "truthy JUndefined = False"
| "truthy JNull = False"
| "truthy (JBool b) = b"
| "truthy (JNum n) = (n \<noteq> 0)"
| "truthy (JStr s) = (s \<noteq> [])"
| "truthy (JArr _) = True"
| "truthy (JObj _) = True"

text \<open>
  The result of a JavaScript division is not computed: \<open>Quotient v d\<close> stands for the
  double the expression \<open>v / d\<close> evaluates to, with the coercion of \<open>v\<close> to a number and
  the rounding of the IEEE division left to the language.
\<close>

datatype jsnum = Quotient jsval rat

subsection \<open>helius.ts\<close>

text \<open>\<open>LAMPORTS_PER_SOL\<close> is a constant of the library \<^verbatim>\<open>@solana/web3.js\<close>.\<close>

definition LAMPORTS_PER_SOL :: rat where
  "LAMPORTS_PER_SOL = 1000000000"

fun lamportsToSol :: "jsval \<Rightarrow> jsnum" where
  "lamportsToSol lamports = Quotient lamports LAMPORTS_PER_SOL"

text \<open>
  \<open>new PublicKey(address)\<close> belongs to \<^verbatim>\<open>@solana/web3.js\<close>. The handlers take its outcome
  as a parameter \<open>pk\<close>: \<open>pk a = None\<close> when the constructor throws, and \<open>Some b\<close> with
  \<open>b\<close> the key's \<open>toBase58()\<close> otherwise.
\<close>

type_synonym public_key = "string \<Rightarrow> string option"

definition validateSolanaAddress :: "public_key \<Rightarrow> string \<Rightarrow> bool" where
  "validateSolanaAddress pk address = (case pk address of Some _ \<Rightarrow> True | None \<Rightarrow> False)"

text \<open>
  Modelled from the spec: the \<open>PublicKey\<close> constructor itself is not part of the
  repository. The spec describes an accepted address as a base58-decodable,
  fixed-length public-key string: every character is of the base58 alphabet and the
  decoded bytes (one zero byte for each leading \<open>1\<close>, then the bytes of the number the
  digits denote) are 32.
\<close>

definition base58_alphabet :: string where
  "base58_alphabet = ''123456789ABCDEFGHJKLMNPQRSTUVWXYZabcdefghijkmnopqrstuvwxyz''"

fun digit_of :: "string \<Rightarrow> char \<Rightarrow> nat option" where
  "digit_of [] c = None"
| "digit_of (d # ds) c = (if c = d then Some 0 else map_option Suc (digit_of ds c))"

fun base58_number :: "nat \<Rightarrow> string \<Rightarrow> nat option" where
  "base58_number acc [] = Some acc"
| "base58_number acc (c # cs) =
     (case digit_of base58_alphabet c of
        None \<Rightarrow> None
      | Some d \<Rightarrow> base58_number (acc * 58 + d) cs)"

fun byte_count :: "nat \<Rightarrow> nat" where
  "byte_count n = (if n = 0 then 0 else Suc (byte_count (n div 256)))"

definition PublicKey :: public_key where
  "PublicKey s =
     (case base58_number 0 s of
        None \<Rightarrow> None
      | Some n \<Rightarrow>
          if length (takeWhile (\<lambda>c. c = CHR ''1'') s) + byte_count n = 32
          then Some s else None)"

subsection \<open>The data model\<close>

record BalanceUpdate =
  timestamp :: nat
  balance :: jsnum
  lamports :: jsval
  slot :: "jsval option"

datatype connection_status = Disconnected | Connecting | Connected

datatype ready_state = CONNECTING | OPEN | CLOSING | CLOSED

text \<open>
  A socket carries the bindings its handlers closed over when
  \<open>subscribeToAccountUpdates\<close> created it: the \<open>walletAddress\<close> argument, and the value
  \<open>reconnectAttempts\<close> had in the render whose functions created it. The handlers
  are never re-attached, so \<open>attemptReconnect\<close> called from \<open>ws.onclose\<close> reads that
  render's constant, not the current React state.
\<close>

record socket =
  readyState :: ready_state
  walletAddress :: string
  renderAttempts :: nat

datatype effect =
    Alert string string
  | HttpGetBalance string
  | WsNew nat
  | WsSend nat jsval
  | WsCloseCall nat
  | SetTimeout nat nat
  | ClearTimeout nat
  | SetInterval nat nat
  | ClearInterval nat
  | Uncaught js_error

text \<open>
  The suspended \<open>handleStartStreaming\<close>: waiting for the seed balance (with the address
  and the render's \<open>reconnectAttempts\<close> it closed over), or for the promise of
  \<open>subscribeToAccountUpdates\<close>, which only the \<open>onopen\<close> of that socket resolves.
\<close>

datatype pending_start = NoStart | AwaitBalance string nat | AwaitSubscribe nat

record world =
  address :: string
  isStreaming :: bool
  currentBalance :: "jsval option"
  balanceUpdates :: "BalanceUpdate list"
  isLoading :: bool
  connectionStatus :: connection_status
  reconnectAttempts :: nat
  subscriptionIdRef :: "jsval option"
  wsRef :: "nat option"
  pingIntervalRef :: "nat option"
  reconnectTimeoutRef :: "nat option"
  currentAddressRef :: string
  isIntentionalCloseRef :: bool
  HELIUS_API_KEY :: string
  sockets :: "socket list"
  timeouts :: "(nat \<times> nat) list"
  intervals :: "nat list"
  timerCount :: nat
  pendingStart :: pending_start
  trace :: "effect list"

definition initial :: "string \<Rightarrow> world" where
  "initial key =
     \<lparr> address = [], isStreaming = False, currentBalance = None, balanceUpdates = [],
       isLoading = False, connectionStatus = Disconnected, reconnectAttempts = 0,
       subscriptionIdRef = None, wsRef = None, pingIntervalRef = None,
       reconnectTimeoutRef = None, currentAddressRef = [], isIntentionalCloseRef = False,
       HELIUS_API_KEY = key, sockets = [], timeouts = [], intervals = [], timerCount = 0,
       pendingStart = NoStart, trace = [] \<rparr>"

subsection \<open>Platform calls\<close>

definition emit :: "effect \<Rightarrow> world \<Rightarrow> world" where
  "emit e w = w\<lparr>trace := trace w @ [e]\<rparr>"

definition socketState :: "world \<Rightarrow> nat \<Rightarrow> ready_state" where
  "socketState w k = (if k < length (sockets w) then readyState (sockets w ! k) else CLOSED)"

definition setSocketState :: "nat \<Rightarrow> ready_state \<Rightarrow> world \<Rightarrow> world" where
  "setSocketState k s w =
     (if k < length (sockets w)
      then w\<lparr>sockets := (sockets w)[k := (sockets w ! k)\<lparr>readyState := s\<rparr>]\<rparr>
      else w)"

text \<open>
  \<open>ws.send(msg)\<close>: throws on a socket that is still connecting, transmits on an open
  one, and is dropped silently on a closing or closed one.
\<close>

definition ws_send :: "nat \<Rightarrow> jsval \<Rightarrow> world \<Rightarrow> world \<times> js_error option" where
  "ws_send k msg w =
     (case socketState w k of
        CONNECTING \<Rightarrow> (w, Some InvalidStateError)
      | OPEN \<Rightarrow> (emit (WsSend k msg) w, None)
      | CLOSING \<Rightarrow> (w, None)
      | CLOSED \<Rightarrow> (w, None))"

text \<open>\<open>ws.close()\<close>: a connecting or open socket starts closing; otherwise nothing happens.\<close>

definition ws_close :: "nat \<Rightarrow> world \<Rightarrow> world" where
  "ws_close k w =
     (let w1 = emit (WsCloseCall k) w in
      case socketState w1 k of
        CONNECTING \<Rightarrow> setSocketState k CLOSING w1
      | OPEN \<Rightarrow> setSocketState k CLOSING w1
      | CLOSING \<Rightarrow> w1
      | CLOSED \<Rightarrow> w1)"

definition clearIntervalCall :: "nat \<Rightarrow> world \<Rightarrow> world" where
  "clearIntervalCall i w = emit (ClearInterval i) (w\<lparr>intervals := removeAll i (intervals w)\<rparr>)"

definition clearTimeoutCall :: "nat \<Rightarrow> world \<Rightarrow> world" where
  "clearTimeoutCall t w =
     emit (ClearTimeout t) (w\<lparr>timeouts := filter (\<lambda>p. fst p \<noteq> t) (timeouts w)\<rparr>)"

subsection \<open>The requests sent on the socket\<close>

definition subscribeRequest :: "string \<Rightarrow> jsval" where
  "subscribeRequest base58 =
     JObj [(''jsonrpc'', JStr ''2.0''), (''id'', JNum 1), (''method'', JStr ''accountSubscribe''),
           (''params'', JArr [JStr base58,
              JObj [(''encoding'', JStr ''jsonParsed''), (''commitment'', JStr ''confirmed'')]])]"

definition unsubscribeRequest :: "jsval \<Rightarrow> jsval" where
  "unsubscribeRequest subscriptionId =
     JObj [(''jsonrpc'', JStr ''2.0''), (''id'', JNum 2), (''method'', JStr ''accountUnsubscribe''),
           (''params'', JArr [subscriptionId])]"

definition keepaliveRequest :: jsval where
  "keepaliveRequest =
     JObj [(''jsonrpc'', JStr ''2.0''), (''id'', JNum 999), (''method'', JStr ''getHealth'')]"

subsection \<open>The handlers of LiveBalanceScreen\<close>

definition cleanupConnection :: "world \<Rightarrow> world" where
  "cleanupConnection w0 =
     (let w1 = w0\<lparr>isIntentionalCloseRef := True\<rparr>;
          w2 = (case pingIntervalRef w1 of
                  None \<Rightarrow> w1
                | Some i \<Rightarrow> (clearIntervalCall i w1)\<lparr>pingIntervalRef := None\<rparr>);
          w3 = (case reconnectTimeoutRef w2 of
                  None \<Rightarrow> w2
                | Some t \<Rightarrow> (clearTimeoutCall t w2)\<lparr>reconnectTimeoutRef := None\<rparr>);
          w4 = (case wsRef w3 of
                  None \<Rightarrow> w3
                | Some k \<Rightarrow> (ws_close k w3)\<lparr>wsRef := None\<rparr>)
      in w4\<lparr>subscriptionIdRef := None\<rparr>)"

text \<open>
  \<open>!address.trim()\<close>: the address is empty once its white space is stripped
  (the white-space characters among the first 256 code points).
\<close>

definition whitespace :: "char \<Rightarrow> bool" where
  "whitespace c = (of_char c \<in> {9, 10, 11, 12, 13, 32, 160 :: nat})"

definition blank :: "string \<Rightarrow> bool" where
  "blank s = list_all whitespace s"

text \<open>The \<open>catch\<close> and \<open>finally\<close> of \<open>handleStartStreaming\<close>.\<close>

definition startFailed :: "string \<Rightarrow> world \<Rightarrow> world" where
  "startFailed message w =
     (emit (Alert ''Error'' (if message = [] then ''Failed to start streaming'' else message)) w)
       \<lparr>isLoading := False, pendingStart := NoStart\<rparr>"

definition apiKeyError :: string where
  "apiKeyError = ''EXPO_PUBLIC_HELIUS_API_KEY is not set in .env file''"

text \<open>
  \<open>handleStartStreaming\<close> up to its first \<open>await\<close>. \<open>createConnection\<close> throws when the
  API key is not set; \<open>getCurrentBalance\<close> builds the same \<open>PublicKey\<close> the validation
  built, and issues the HTTP request. The continuation keeps the address and the
  \<open>reconnectAttempts\<close> of the render the handler belongs to.
\<close>

definition handleStartStreaming :: "public_key \<Rightarrow> world \<Rightarrow> world" where
  "handleStartStreaming pk w =
     (if blank (address w) then emit (Alert ''Error'' ''Please enter a Solana address'') w
      else if \<not> validateSolanaAddress pk (address w)
      then emit (Alert ''Error'' ''Invalid Solana address'') w
      else
        let w1 = w\<lparr>isLoading := True, balanceUpdates := [], reconnectAttempts := 0,
                   isIntentionalCloseRef := False, currentAddressRef := address w\<rparr>
        in if HELIUS_API_KEY w1 = [] then startFailed apiKeyError w1
           else (emit (HttpGetBalance (address w)) w1)
                  \<lparr>pendingStart := AwaitBalance (address w) (reconnectAttempts w)\<rparr>)"

definition handleStopStreaming :: "world \<Rightarrow> world" where
  "handleStopStreaming w =
     (let w1 = w\<lparr>isIntentionalCloseRef := True\<rparr>;
          w2 = (case wsRef w1 of
                  None \<Rightarrow> w1
                | Some k \<Rightarrow>
                    (case subscriptionIdRef w1 of
                       None \<Rightarrow> w1
                     | Some sid \<Rightarrow> fst (ws_send k (unsubscribeRequest sid) w1)));
          w3 = cleanupConnection w2
      in w3\<lparr>isStreaming := False, connectionStatus := Disconnected, reconnectAttempts := 0\<rparr>)"

definition startPingInterval :: "world \<Rightarrow> world" where
  "startPingInterval w =
     (let w1 = (case pingIntervalRef w of None \<Rightarrow> w | Some i \<Rightarrow> clearIntervalCall i w);
          t = Suc (timerCount w1)
      in (emit (SetInterval t 60000) w1)
           \<lparr>timerCount := t, intervals := intervals w1 @ [t], pingIntervalRef := Some t\<rparr>)"

text \<open>The callback of the interval: a keepalive on the current socket when it is open.\<close>

definition pingCallback :: "world \<Rightarrow> world" where
  "pingCallback w =
     (case wsRef w of
        None \<Rightarrow> w
      | Some k \<Rightarrow> if socketState w k = OPEN then fst (ws_send k keepaliveRequest w) else w)"

definition backoffMs :: "nat \<Rightarrow> nat" where
  "backoffMs attempts = min (1000 * 2 ^ attempts) 30000"

text \<open>
  \<open>attemptReconnect\<close>. Its first argument is the \<open>reconnectAttempts\<close> the function closed
  over; the counter shown to the user is incremented through the updater
  \<open>prev => prev + 1\<close>, which reads the current state.
\<close>

definition attemptReconnect :: "nat \<Rightarrow> world \<Rightarrow> world" where
  "attemptReconnect closureAttempts w =
     (if isIntentionalCloseRef w then w
      else
        let t = Suc (timerCount w)
        in (emit (SetTimeout t (backoffMs closureAttempts)) w)
             \<lparr>connectionStatus := Connecting, reconnectAttempts := reconnectAttempts w + 1,
              timerCount := t, timeouts := timeouts w @ [(t, closureAttempts)],
              reconnectTimeoutRef := Some t\<rparr>)"

text \<open>
  The executor of the promise \<open>subscribeToAccountUpdates\<close> returns: \<open>Inl\<close> when it rejects
  (\<open>getHeliusWsUrl\<close> threw), \<open>Inr k\<close> with the new socket otherwise; the promise then
  stays pending until \<open>onopen\<close> of socket \<open>k\<close>.
\<close>

definition subscribeToAccountUpdates :: "string \<Rightarrow> nat \<Rightarrow> world \<Rightarrow> world \<times> (string + nat)" where
  "subscribeToAccountUpdates walletAddr closureAttempts w =
     (if HELIUS_API_KEY w = [] then (w, Inl apiKeyError)
      else
        let k = length (sockets w);
            ws = \<lparr>readyState = CONNECTING, walletAddress = walletAddr,
                  renderAttempts = closureAttempts\<rparr>
        in ((emit (WsNew k) w)
              \<lparr>sockets := sockets w @ [ws], wsRef := Some k, connectionStatus := Connecting\<rparr>,
            Inr k))"

text \<open>The continuation of \<open>handleStartStreaming\<close> after \<open>await subscribeToAccountUpdates\<close>.\<close>

definition resolveStart :: "nat \<Rightarrow> world \<Rightarrow> world" where
  "resolveStart k w =
     (if pendingStart w = AwaitSubscribe k
      then w\<lparr>isStreaming := True, isLoading := False, pendingStart := NoStart\<rparr>
      else w)"

definition onopen :: "public_key \<Rightarrow> nat \<Rightarrow> world \<Rightarrow> world \<times> js_error option" where
  "onopen pk k w =
     (let w1 = w\<lparr>connectionStatus := Connected, reconnectAttempts := 0\<rparr>;
          w2 = startPingInterval w1
      in case pk (walletAddress (sockets w ! k)) of
           None \<Rightarrow> (w2, Some (Error ''Invalid public key input''))
         | Some base58 \<Rightarrow>
             (case ws_send k (subscribeRequest base58) w2 of
                (w3, Some e) \<Rightarrow> (w3, Some e)
              | (w3, None) \<Rightarrow> (resolveStart k w3, None)))"

text \<open>
  \<open>ws.onmessage\<close>. The payload is the outcome of \<open>JSON.parse(event.data)\<close>: \<open>None\<close> when
  the text is not JSON and the call throws a SyntaxError. \<open>now\<close> is \<open>Date.now()\<close>.
  The handler has no \<open>try\<close>: what it throws escapes it.
\<close>

definition onmessage :: "jsval option \<Rightarrow> nat \<Rightarrow> world \<Rightarrow> world \<times> js_error option" where
  "onmessage payload now w =
     (case payload of
        None \<Rightarrow> (w, Some SyntaxError)
      | Some data \<Rightarrow>
          if nullish data then (w, Some TypeError)
          else if get data ''id'' = JNum 1 \<and> truthy (get data ''result'')
          then (w\<lparr>subscriptionIdRef := Some (get data ''result'')\<rparr>, None)
          else if get data ''id'' = JNum 999 then (w, None)
          else if get data ''method'' = JStr ''accountNotification''
          then
            let params = get data ''params'' in
            if nullish params then (w, Some TypeError)
            else
              let result = get params ''result'' in
              if nullish result then (w, Some TypeError)
              else
                let accountInfo = get result ''value'';
                    context = get result ''context''
                in if nullish context then (w, Some TypeError)
                   else
                     let slotValue = get context ''slot'' in
                     if truthy accountInfo
                     then
                       let lamportsValue = get accountInfo ''lamports'';
                           sol = lamportsToSol lamportsValue
                       in (w\<lparr>currentBalance := Some lamportsValue,
                              balanceUpdates := balanceUpdates w @
                                [\<lparr>timestamp = now, balance = sol, lamports = lamportsValue,
                                  slot = Some slotValue\<rparr>]\<rparr>,
                           None)
                     else (w, None)
          else (w, None))"

definition onerror :: "world \<Rightarrow> world" where
  "onerror w = w\<lparr>connectionStatus := Disconnected\<rparr>"

text \<open>\<open>ws.onclose\<close> of a socket whose handlers closed over \<open>closureAttempts\<close>.\<close>

definition onclose :: "nat \<Rightarrow> world \<Rightarrow> world" where
  "onclose closureAttempts w =
     (let w1 = w\<lparr>connectionStatus := Disconnected\<rparr>;
          w2 = (case pingIntervalRef w1 of
                  None \<Rightarrow> w1
                | Some i \<Rightarrow> (clearIntervalCall i w1)\<lparr>pingIntervalRef := None\<rparr>)
      in if \<not> isIntentionalCloseRef w2 then attemptReconnect closureAttempts w2 else w2)"

text \<open>
  The callback \<open>attemptReconnect\<close> hands to \<open>setTimeout\<close>; a rejection of the promise is
  caught and logged.
\<close>

definition reconnectCallback :: "nat \<Rightarrow> world \<Rightarrow> world" where
  "reconnectCallback closureAttempts w =
     (if currentAddressRef w \<noteq> [] \<and> \<not> isIntentionalCloseRef w
      then fst (subscribeToAccountUpdates (currentAddressRef w) closureAttempts w)
      else w)"

text \<open>
  \<open>handleStartStreaming\<close> from the moment \<open>getCurrentBalance\<close> settles (\<open>Inl\<close> the message
  of the error it rejects with, \<open>Inr\<close> the lamports) to its second \<open>await\<close>.
\<close>

definition balanceSettled :: "string + nat \<Rightarrow> nat \<Rightarrow> world \<Rightarrow> world" where
  "balanceSettled outcome now w =
     (case pendingStart w of
        AwaitBalance addr closureAttempts \<Rightarrow>
          (case outcome of
             Inl message \<Rightarrow> startFailed message w
           | Inr initialBalance \<Rightarrow>
               let w1 = w\<lparr>currentBalance := Some (JNum (of_nat initialBalance)),
                          balanceUpdates :=
                            [\<lparr>timestamp = now,
                              balance = lamportsToSol (JNum (of_nat initialBalance)),
                              lamports = JNum (of_nat initialBalance), slot = None\<rparr>]\<rparr>
               in (case subscribeToAccountUpdates addr closureAttempts w1 of
                     (w2, Inl message) \<Rightarrow> startFailed message w2
                   | (w2, Inr k) \<Rightarrow> w2\<lparr>pendingStart := AwaitSubscribe k\<rparr>))
      | NoStart \<Rightarrow> w
      | AwaitSubscribe k \<Rightarrow> w)"

subsection \<open>The event loop\<close>

text \<open>
  What the user and the platform can do to the component. The start button is shown
  while \<open>isStreaming\<close> is false and enabled while \<open>isLoading\<close> is false; the stop button
  is shown while \<open>isStreaming\<close> is true; the address can be edited while \<open>isStreaming\<close>
  is false. \<open>isLoading\<close> is set for as long as a start is suspended, so at most one
  start is suspended at a time. A socket opens only while connecting, delivers messages only while open,
  and closes once; a timeout fires once unless cleared, an interval until cleared.
  An event that cannot happen leaves the world as it is. An exception that escapes a
  handler is recorded in the trace.
\<close>

datatype event =
    UserSetAddress string
  | UserStart
  | UserStop
  | BalanceResult "string + nat" nat
  | WsOpen nat
  | WsMessage nat "jsval option" nat
  | WsError nat
  | WsClose nat
  | TimeoutFire nat
  | IntervalFire nat

definition finish :: "world \<times> js_error option \<Rightarrow> world" where
  "finish r = (case snd r of None \<Rightarrow> fst r | Some e \<Rightarrow> emit (Uncaught e) (fst r))"

fun step :: "public_key \<Rightarrow> world \<Rightarrow> event \<Rightarrow> world" where
  "step pk w (UserSetAddress a) = (if isStreaming w then w else w\<lparr>address := a\<rparr>)"
| "step pk w UserStart =
     (if isStreaming w \<or> isLoading w \<or> pendingStart w \<noteq> NoStart then w
      else handleStartStreaming pk w)"
| "step pk w UserStop = (if isStreaming w then handleStopStreaming w else w)"
| "step pk w (BalanceResult outcome now) = balanceSettled outcome now w"
| "step pk w (WsOpen k) =
     (if socketState w k = CONNECTING then finish (onopen pk k (setSocketState k OPEN w)) else w)"
| "step pk w (WsMessage k payload now) =
     (if socketState w k = OPEN then finish (onmessage payload now w) else w)"
| "step pk w (WsError k) =
     (if k < length (sockets w) \<and> socketState w k \<noteq> CLOSED then onerror w else w)"
| "step pk w (WsClose k) =
     (if k < length (sockets w) \<and> socketState w k \<noteq> CLOSED
      then onclose (renderAttempts (sockets w ! k)) (setSocketState k CLOSED w)
      else w)"
| "step pk w (TimeoutFire t) =
     (case map_of (timeouts w) t of
        None \<Rightarrow> w
      | Some closureAttempts \<Rightarrow>
          reconnectCallback closureAttempts
            (w\<lparr>timeouts := filter (\<lambda>p. fst p \<noteq> t) (timeouts w)\<rparr>))"
| "step pk w (IntervalFire i) = (if i \<in> set (intervals w) then pingCallback w else w)"

definition run :: "public_key \<Rightarrow> world \<Rightarrow> event list \<Rightarrow> world" where
  "run pk w es = foldl (step pk) w es"

text \<open>The reconnect delays the component asked the platform for, in order.\<close>

fun delays :: "effect list \<Rightarrow> nat list" where
  "delays [] = []"
| "delays (SetTimeout t ms # es) = ms # delays es"
| "delays (e # es) = delays es"

text \<open>The subscribe requests sent, with the socket they were sent on.\<close>

fun subscribesSent :: "effect list \<Rightarrow> nat list" where
  "subscribesSent [] = []"
| "subscribesSent (WsSend k msg # es) =
     (if get msg ''method'' = JStr ''accountSubscribe'' then k # subscribesSent es
      else subscribesSent es)"
| "subscribesSent (e # es) = subscribesSent es"

subsection \<open>Notifications and records\<close>

text \<open>
  A message \<open>ws.onmessage\<close> handles as an account-change notification carrying a value:
  it is not taken for the subscribe acknowledgement (id 1 with a result) or a keepalive
  response (id 999), its method is \<open>accountNotification\<close>, \<open>params.result.context\<close> can be
  read, and \<open>params.result.value\<close> is not null (nor any other falsy value).
\<close>

definition accountNotification :: "jsval \<Rightarrow> bool" where
  "accountNotification data =
     (\<not> nullish data \<and>
      \<not> (get data ''id'' = JNum 1 \<and> truthy (get data ''result'')) \<and>
      get data ''id'' \<noteq> JNum 999 \<and>
      get data ''method'' = JStr ''accountNotification'' \<and>
      \<not> nullish (get data ''params'') \<and>
      \<not> nullish (get (get data ''params'') ''result'') \<and>
      \<not> nullish (get (get (get data ''params'') ''result'') ''context'') \<and>
      truthy (get (get (get data ''params'') ''result'') ''value''))"

text \<open>The record a notification received at \<open>now\<close> stands for.\<close>

definition updateOf :: "jsval \<Rightarrow> nat \<Rightarrow> BalanceUpdate" where
  "updateOf data now =
     \<lparr>timestamp = now,
      balance = lamportsToSol (get (get (get (get data ''params'') ''result'') ''value'') ''lamports''),
      lamports = get (get (get (get data ''params'') ''result'') ''value'') ''lamports'',
      slot = Some (get (get (get (get data ''params'') ''result'') ''context'') ''slot'')\<rparr>"

text \<open>The wire form of a notification for a subscription, a slot and an account value.\<close>

definition notification :: "jsval \<Rightarrow> jsval \<Rightarrow> jsval \<Rightarrow> jsval" where
  "notification subscription slotValue accountInfo =
     JObj [(''jsonrpc'', JStr ''2.0''), (''method'', JStr ''accountNotification''),
           (''params'', JObj [(''result'', JObj [(''context'', JObj [(''slot'', slotValue)]),
                                                (''value'', accountInfo)]),
                             (''subscription'', subscription)])]"



text \<open>
  A sample address, that of the system program (32 zero bytes), and the component
  freshly mounted with that address typed in.
\<close>

definition systemProgram :: string where
  "systemProgram = ''11111111111111111111111111111111''"

definition mounted :: world where
  "mounted = (initial ''key'')\<lparr>address := systemProgram\<rparr>"


text \<open>
  The session after a start whose seed balance was 1000000000 lamports (fetched at time
  1) and whose socket opened.
\<close>

definition streaming :: world where
  "streaming = run PublicKey mounted [UserStart, BalanceResult (Inr 1000000000) 1, WsOpen 0]"

text \<open>
  The user stops that session and starts again at once. The close event of the first
  socket arrives after the second start has reset the intentional-close flag, so it
  schedules a reconnect; the timer fires while the seed balance is still being
  fetched and creates socket 1; the start then creates socket 2, which opens first.
\<close>

definition restarted :: world where
  "restarted = run PublicKey streaming
     [UserStop, UserStart, WsClose 0, TimeoutFire 2, BalanceResult (Inr 1000000000) 9, WsOpen 2]"

text \<open>
  A session at rest: the intentional-close flag is set, no start is suspended, the
  status is not \<open>Connecting\<close>, and no socket is still connecting.
\<close>

definition quiescent :: "world \<Rightarrow> bool" where
  "quiescent w =
     (isIntentionalCloseRef w \<and> pendingStart w = NoStart \<and> connectionStatus w \<noteq> Connecting \<and>
      list_all (\<lambda>s. readyState s \<noteq> CONNECTING) (sockets w))"

section \<open>Properties\<close>

subsection \<open>Basic facts\<close>

lemma emit_fields [simp]:
  "trace (emit e w) = trace w @ [e]"
  "address (emit e w) = address w"
  "isStreaming (emit e w) = isStreaming w"
  "currentBalance (emit e w) = currentBalance w"
  "balanceUpdates (emit e w) = balanceUpdates w"
  "isLoading (emit e w) = isLoading w"
  "connectionStatus (emit e w) = connectionStatus w"
  "reconnectAttempts (emit e w) = reconnectAttempts w"
  "subscriptionIdRef (emit e w) = subscriptionIdRef w"
  "wsRef (emit e w) = wsRef w"
  "pingIntervalRef (emit e w) = pingIntervalRef w"
  "reconnectTimeoutRef (emit e w) = reconnectTimeoutRef w"
  "currentAddressRef (emit e w) = currentAddressRef w"
  "isIntentionalCloseRef (emit e w) = isIntentionalCloseRef w"
  "HELIUS_API_KEY (emit e w) = HELIUS_API_KEY w"
  "sockets (emit e w) = sockets w"
  "timeouts (emit e w) = timeouts w"
  "intervals (emit e w) = intervals w"
  "timerCount (emit e w) = timerCount w"
  "pendingStart (emit e w) = pendingStart w"
  by (simp_all add: emit_def)

lemma PublicKey_systemProgram: "PublicKey systemProgram = Some systemProgram"
  by (simp add: PublicKey_def systemProgram_def base58_alphabet_def)

lemma validate_systemProgram: "validateSolanaAddress PublicKey systemProgram"
  by (simp add: validateSolanaAddress_def PublicKey_systemProgram)

lemma systemProgram_not_blank: "\<not> blank systemProgram"
  by (simp add: blank_def systemProgram_def whitespace_def)

lemma systemProgram_nonempty: "systemProgram \<noteq> []"
  by (simp add: systemProgram_def)

lemma subscribeRequest_method: "get (subscribeRequest b) ''method'' = JStr ''accountSubscribe''"
  by (simp add: subscribeRequest_def)

lemmas platform_defs = emit_def socketState_def setSocketState_def ws_send_def ws_close_def
  clearIntervalCall_def clearTimeoutCall_def

lemmas handler_defs = handleStartStreaming_def balanceSettled_def subscribeToAccountUpdates_def
  onopen_def startPingInterval_def resolveStart_def finish_def startFailed_def onclose_def
  onerror_def attemptReconnect_def reconnectCallback_def handleStopStreaming_def
  cleanupConnection_def pingCallback_def

lemmas sample_facts = mounted_def initial_def validate_systemProgram systemProgram_not_blank
  PublicKey_systemProgram systemProgram_nonempty

lemmas eval_facts = run_def sample_facts handler_defs platform_defs Let_def backoffMs_def
  subscribeRequest_method

lemma mounted_can_start:
  "\<not> isStreaming mounted" "\<not> isLoading mounted" "pendingStart mounted = NoStart"
  "\<not> blank (address mounted)" "validateSolanaAddress PublicKey (address mounted)"
  "HELIUS_API_KEY mounted \<noteq> []"
  by (simp_all add: sample_facts)

lemma mounted_sockets: "sockets mounted = []" "timeouts mounted = []" "timerCount mounted = 0"
  "reconnectAttempts mounted = 0" "trace mounted = []" "address mounted = systemProgram"
  "connectionStatus mounted = Disconnected"
  by (simp_all add: sample_facts)

lemma streaming_state:
  "streaming = mounted\<lparr>isStreaming := True, currentBalance := Some (JNum 1000000000),
      balanceUpdates :=
        [\<lparr>timestamp = 1, balance = lamportsToSol (JNum 1000000000), lamports = JNum 1000000000, slot = None\<rparr>],
      connectionStatus := Connected, wsRef := Some 0, pingIntervalRef := Some 1,
      currentAddressRef := systemProgram,
      sockets := [\<lparr>readyState = OPEN, walletAddress = systemProgram, renderAttempts = 0\<rparr>],
      intervals := [1], timerCount := 1,
      trace := [HttpGetBalance systemProgram, WsNew 0, SetInterval 1 60000,
                WsSend 0 (subscribeRequest systemProgram)]\<rparr>"
  by (simp add: streaming_def eval_facts LAMPORTS_PER_SOL_def)

lemma restarted_state:
  "restarted = mounted\<lparr>isStreaming := True, currentBalance := Some (JNum 1000000000),
      balanceUpdates :=
        [\<lparr>timestamp = 9, balance = lamportsToSol (JNum 1000000000), lamports = JNum 1000000000, slot = None\<rparr>],
      connectionStatus := Connected, reconnectAttempts := 0, wsRef := Some 2,
      pingIntervalRef := Some 3, reconnectTimeoutRef := Some 2,
      currentAddressRef := systemProgram,
      sockets := [\<lparr>readyState = CLOSED, walletAddress = systemProgram, renderAttempts = 0\<rparr>,
                  \<lparr>readyState = CONNECTING, walletAddress = systemProgram, renderAttempts = 0\<rparr>,
                  \<lparr>readyState = OPEN, walletAddress = systemProgram, renderAttempts = 0\<rparr>],
      intervals := [3], timerCount := 3,
      trace := [HttpGetBalance systemProgram, WsNew 0, SetInterval 1 60000,
                WsSend 0 (subscribeRequest systemProgram), ClearInterval 1, WsCloseCall 0,
                HttpGetBalance systemProgram, SetTimeout 2 1000, WsNew 1, WsNew 2,
                SetInterval 3 60000, WsSend 2 (subscribeRequest systemProgram)]\<rparr>"
  unfolding restarted_def streaming_state
  by (simp add: eval_facts LAMPORTS_PER_SOL_def)

lemma run_Cons: "run pk w (e # es) = run pk (step pk w e) es"
  by (simp add: run_def)

subsection \<open>Malformed messages\<close>




subsection \<open>Address validation\<close>

text \<open>
  C5. When \<open>new PublicKey(address)\<close> throws, \<open>handleStartStreaming\<close> returns before its first
  \<open>await\<close> having done nothing but raise one alert: an address that is blank gets
  "Please enter a Solana address", any other "Invalid Solana address". No HTTP request
  is issued, no socket is created, and every field of the session is as it was.
\<close>

theorem invalid_address_rejected:
  assumes "\<not> validateSolanaAddress pk (address w)"
  shows "handleStartStreaming pk w =
     w\<lparr>trace := trace w @
        [Alert ''Error'' (if blank (address w) then ''Please enter a Solana address''
                          else ''Invalid Solana address'')]\<rparr>"
  using assms by (simp add: handleStartStreaming_def emit_def)

theorem invalid_address_rejected_witness:
  "\<not> validateSolanaAddress PublicKey ''not-an-address'' \<and>
   handleStartStreaming PublicKey ((initial ''key'')\<lparr>address := ''not-an-address''\<rparr>) =
     (initial ''key'')\<lparr>address := ''not-an-address'',
                       trace := [Alert ''Error'' ''Invalid Solana address'']\<rparr>"
proof -
  have h: "\<not> validateSolanaAddress PublicKey
             (address ((initial ''key'')\<lparr>address := ''not-an-address''\<rparr>))"
    by (simp add: validateSolanaAddress_def PublicKey_def base58_alphabet_def)
  have b: "\<not> blank ''not-an-address''"
    by (simp add: blank_def whitespace_def)
  show ?thesis
    using h invalid_address_rejected [OF h] b by (simp add: initial_def)
qed

subsection \<open>Null account values\<close>

text \<open>
  C7. A message whose \<open>params.result.value\<close> is null appends no record and leaves the
  stored current balance alone, whatever else the message holds.
\<close>

theorem null_value_no_update:
  assumes "get (get (get data ''params'') ''result'') ''value'' = JNull"
  shows "balanceUpdates (fst (onmessage (Some data) now w)) = balanceUpdates w \<and>
         currentBalance (fst (onmessage (Some data) now w)) = currentBalance w"
  using assms by (simp add: onmessage_def Let_def)

theorem null_value_no_update_witness:
  "get (get (get (notification (JNum 7) (JNum 100) JNull) ''params'') ''result'') ''value'' = JNull \<and>
   balanceUpdates (fst (onmessage (Some (notification (JNum 7) (JNum 100) JNull)) 5 mounted)) = [] \<and>
   currentBalance (fst (onmessage (Some (notification (JNum 7) (JNum 100) JNull)) 5 mounted)) = None"
proof -
  have h: "get (get (get (notification (JNum 7) (JNum 100) JNull) ''params'') ''result'') ''value''
           = JNull"
    by (simp add: notification_def)
  show ?thesis
    using h null_value_no_update [OF h, of 5 mounted] by (simp add: mounted_def initial_def)
qed

subsection \<open>Stopping\<close>

lemma stopped_fixed:
  assumes "wsRef w = None" "subscriptionIdRef w = None" "pingIntervalRef w = None"
    "reconnectTimeoutRef w = None" "isIntentionalCloseRef w" "\<not> isStreaming w"
    "connectionStatus w = Disconnected" "reconnectAttempts w = 0"
  shows "handleStopStreaming w = w"
  using assms by (cases w) (simp add: handleStopStreaming_def cleanupConnection_def)

lemma cleanup_refs:
  "wsRef (cleanupConnection w) = None \<and> subscriptionIdRef (cleanupConnection w) = None \<and>
   pingIntervalRef (cleanupConnection w) = None \<and>
   reconnectTimeoutRef (cleanupConnection w) = None \<and>
   isIntentionalCloseRef (cleanupConnection w)"
  by (simp add: cleanupConnection_def Let_def ws_close_def setSocketState_def
      clearTimeoutCall_def clearIntervalCall_def emit_def
      split: option.split ready_state.split)

text \<open>
  C8. A second \<open>handleStopStreaming\<close> right after the first changes nothing: the world it
  returns, trace of outside calls included, is the world the first call left. So it
  sends no unsubscribe request, closes no socket and clears no timer.
\<close>

theorem stop_idempotent:
  "handleStopStreaming (handleStopStreaming w) = handleStopStreaming w"
proof (rule stopped_fixed)
  let ?w1 = "w\<lparr>isIntentionalCloseRef := True\<rparr>"
  let ?c = "cleanupConnection
     (case wsRef ?w1 of
        None \<Rightarrow> ?w1
      | Some k \<Rightarrow>
          (case subscriptionIdRef ?w1 of
             None \<Rightarrow> ?w1
           | Some sid \<Rightarrow> fst (ws_send k (unsubscribeRequest sid) ?w1)))"
  have eq: "handleStopStreaming w =
      ?c\<lparr>isStreaming := False, connectionStatus := Disconnected, reconnectAttempts := 0\<rparr>"
    by (simp add: handleStopStreaming_def Let_def)
  show "wsRef (handleStopStreaming w) = None"
    unfolding eq using cleanup_refs by simp
  show "subscriptionIdRef (handleStopStreaming w) = None"
    unfolding eq using cleanup_refs by simp
  show "pingIntervalRef (handleStopStreaming w) = None"
    unfolding eq using cleanup_refs by simp
  show "reconnectTimeoutRef (handleStopStreaming w) = None"
    unfolding eq using cleanup_refs by simp
  show "isIntentionalCloseRef (handleStopStreaming w)"
    unfolding eq using cleanup_refs by simp
  show "\<not> isStreaming (handleStopStreaming w)"
    unfolding eq by simp
  show "connectionStatus (handleStopStreaming w) = Disconnected"
    unfolding eq by simp
  show "reconnectAttempts (handleStopStreaming w) = 0"
    unfolding eq by simp
qed

subsection \<open>Order of the history\<close>

lemma onmessage_notification:
  assumes "accountNotification data"
  shows "onmessage (Some data) now w =
     (w\<lparr>currentBalance := Some (lamports (updateOf data now)),
        balanceUpdates := balanceUpdates w @ [updateOf data now]\<rparr>, None)"
  using assms by (auto simp add: accountNotification_def onmessage_def updateOf_def Let_def)

lemma step_notification:
  assumes "socketState w k = OPEN" "accountNotification data"
  shows "step pk w (WsMessage k (Some data) now) =
     w\<lparr>currentBalance := Some (lamports (updateOf data now)),
        balanceUpdates := balanceUpdates w @ [updateOf data now]\<rparr>"
  using assms by (simp add: onmessage_notification finish_def)





subsection \<open>Starting\<close>

text \<open>
  C10. When the start button can be pressed and the address is valid, \<open>handleStartStreaming\<close>
  empties the history before the seed balance is fetched, whatever it held; once the
  balance has arrived and the socket of this start has opened, the start is complete
  (\<open>isStreaming\<close> is set, \<open>isLoading\<close> cleared) and the history is exactly the seed record.
\<close>

theorem start_resets_history:
  assumes "\<not> isStreaming w" "\<not> isLoading w" "pendingStart w = NoStart"
    "\<not> blank (address w)" "validateSolanaAddress pk (address w)" "HELIUS_API_KEY w \<noteq> []"
  shows "balanceUpdates (step pk w UserStart) = [] \<and>
     balanceUpdates (run pk w [UserStart, BalanceResult (Inr n) now, WsOpen (length (sockets w))]) =
       [\<lparr>timestamp = now, balance = lamportsToSol (JNum (of_nat n)),
         lamports = JNum (of_nat n), slot = None\<rparr>] \<and>
     isStreaming (run pk w [UserStart, BalanceResult (Inr n) now, WsOpen (length (sockets w))]) \<and>
     \<not> isLoading (run pk w [UserStart, BalanceResult (Inr n) now, WsOpen (length (sockets w))])"
proof -
  obtain b where b: "pk (address w) = Some b"
    using assms(5) by (auto simp: validateSolanaAddress_def split: option.splits)
  define w1 where "w1 = step pk w UserStart"
  have w1: "w1 = w\<lparr>isLoading := True, balanceUpdates := [], reconnectAttempts := 0,
                   isIntentionalCloseRef := False, currentAddressRef := address w,
                   trace := trace w @ [HttpGetBalance (address w)],
                   pendingStart := AwaitBalance (address w) (reconnectAttempts w)\<rparr>"
    unfolding w1_def using assms by (simp add: handleStartStreaming_def emit_def Let_def)
  define k where "k = length (sockets w)"
  define seed where "seed = \<lparr>timestamp = now, balance = lamportsToSol (JNum (of_nat n)),
         lamports = JNum (of_nat n), slot = None\<rparr>"
  define w2 where "w2 = step pk w1 (BalanceResult (Inr n) now)"
  have w2: "w2 = w\<lparr>isLoading := True, balanceUpdates := [seed], reconnectAttempts := 0,
                   isIntentionalCloseRef := False, currentAddressRef := address w,
                   currentBalance := Some (JNum (of_nat n)),
                   sockets := sockets w @ [\<lparr>readyState = CONNECTING, walletAddress = address w,
                      renderAttempts = reconnectAttempts w\<rparr>],
                   wsRef := Some k, connectionStatus := Connecting,
                   trace := trace w @ [HttpGetBalance (address w), WsNew k],
                   pendingStart := AwaitSubscribe k\<rparr>"
    unfolding w2_def w1 k_def seed_def using assms(6)
    by (simp add: balanceSettled_def subscribeToAccountUpdates_def emit_def Let_def)
  define w3 where "w3 = step pk w2 (WsOpen k)"
  have w3: "balanceUpdates w3 = [seed] \<and> isStreaming w3 \<and> \<not> isLoading w3"
    unfolding w3_def w2 k_def using b
    by (simp add: onopen_def startPingInterval_def resolveStart_def finish_def Let_def
        platform_defs split: option.split)
  have r: "run pk w [UserStart, BalanceResult (Inr n) now, WsOpen (length (sockets w))] = w3"
    unfolding w3_def w2_def w1_def k_def by (simp add: run_def del: step.simps)
  have "balanceUpdates (step pk w UserStart) = []"
    using w1 unfolding w1_def by simp
  then show ?thesis
    unfolding r using w3 by (simp add: seed_def)
qed

theorem start_resets_history_witness:
  "balanceUpdates (step PublicKey streaming UserStop) \<noteq> [] \<and>
   balanceUpdates (step PublicKey (step PublicKey streaming UserStop) UserStart) = [] \<and>
   balanceUpdates (run PublicKey (step PublicKey streaming UserStop)
       [UserStart, BalanceResult (Inr 5) 8, WsOpen 1]) =
     [\<lparr>timestamp = 8, balance = lamportsToSol (JNum 5), lamports = JNum 5, slot = None\<rparr>] \<and>
   isStreaming (run PublicKey (step PublicKey streaming UserStop)
       [UserStart, BalanceResult (Inr 5) 8, WsOpen 1])"
proof -
  define w where "w = step PublicKey streaming UserStop"
  have h: "\<not> isStreaming w" "\<not> isLoading w" "pendingStart w = NoStart"
    "\<not> blank (address w)" "validateSolanaAddress PublicKey (address w)"
    "HELIUS_API_KEY w \<noteq> []"
    unfolding w_def streaming_state by (simp_all add: eval_facts)
  have l: "length (sockets w) = 1" "balanceUpdates w \<noteq> []"
    unfolding w_def streaming_state by (simp_all add: eval_facts)
  show ?thesis
    using start_resets_history [OF h, of 5 8] l
    unfolding w_def [symmetric] by (simp add: LAMPORTS_PER_SOL_def)
qed

subsection \<open>A start that fails\<close>

text \<open>
  C2, as the code has it. When the seed balance cannot be fetched, the start reports the
  error in an alert, clears \<open>isLoading\<close>, leaves \<open>isStreaming\<close> false and the connection
  status as it was, and has created no socket and no timer. When the balance arrives
  but the socket fails and closes before it opened, \<open>ws.onclose\<close> finds the
  intentional-close flag unset and schedules a reconnect as for any other close: a
  timeout is set and kept in \<open>reconnectTimeoutRef\<close>, the status becomes \<open>Connecting\<close>,
  and no alert is raised.
\<close>

theorem failed_start_paths:
  assumes "\<not> isStreaming w" "\<not> isLoading w" "pendingStart w = NoStart"
    "\<not> blank (address w)" "validateSolanaAddress pk (address w)" "HELIUS_API_KEY w \<noteq> []"
  shows
    "trace (run pk w [UserStart, BalanceResult (Inl message) now]) =
       trace w @ [HttpGetBalance (address w),
                  Alert ''Error'' (if message = [] then ''Failed to start streaming'' else message)] \<and>
     \<not> isStreaming (run pk w [UserStart, BalanceResult (Inl message) now]) \<and>
     \<not> isLoading (run pk w [UserStart, BalanceResult (Inl message) now]) \<and>
     pendingStart (run pk w [UserStart, BalanceResult (Inl message) now]) = NoStart \<and>
     connectionStatus (run pk w [UserStart, BalanceResult (Inl message) now]) = connectionStatus w \<and>
     sockets (run pk w [UserStart, BalanceResult (Inl message) now]) = sockets w \<and>
     timeouts (run pk w [UserStart, BalanceResult (Inl message) now]) = timeouts w \<and>
     map fst (timeouts (run pk w [UserStart, BalanceResult (Inr n) now,
                                  WsError (length (sockets w)), WsClose (length (sockets w))])) =
       map fst (timeouts w) @ [Suc (timerCount w)] \<and>
     reconnectTimeoutRef (run pk w [UserStart, BalanceResult (Inr n) now,
                                    WsError (length (sockets w)), WsClose (length (sockets w))]) =
       Some (Suc (timerCount w)) \<and>
     connectionStatus (run pk w [UserStart, BalanceResult (Inr n) now,
                                 WsError (length (sockets w)), WsClose (length (sockets w))]) =
       Connecting \<and>
     (\<exists>ms. last (trace (run pk w [UserStart, BalanceResult (Inr n) now,
                                    WsError (length (sockets w)), WsClose (length (sockets w))])) =
            SetTimeout (Suc (timerCount w)) ms)"
proof -
  define w1 where "w1 = step pk w UserStart"
  have w1: "w1 = w\<lparr>isLoading := True, balanceUpdates := [], reconnectAttempts := 0,
                   isIntentionalCloseRef := False, currentAddressRef := address w,
                   trace := trace w @ [HttpGetBalance (address w)],
                   pendingStart := AwaitBalance (address w) (reconnectAttempts w)\<rparr>"
    unfolding w1_def using assms by (simp add: handleStartStreaming_def emit_def Let_def)
  define f where "f = step pk w1 (BalanceResult (Inl message) now)"
  have f: "f = w\<lparr>isLoading := False, balanceUpdates := [], reconnectAttempts := 0,
                   isIntentionalCloseRef := False, currentAddressRef := address w,
                   trace := trace w @ [HttpGetBalance (address w),
                     Alert ''Error''
                       (if message = [] then ''Failed to start streaming'' else message)],
                   pendingStart := NoStart\<rparr>"
    unfolding f_def w1 by (simp add: balanceSettled_def startFailed_def emit_def)
  have rf: "run pk w [UserStart, BalanceResult (Inl message) now] = f"
    unfolding f_def w1_def by (simp add: run_def del: step.simps)
  define k where "k = length (sockets w)"
  define w2 where "w2 = step pk w1 (BalanceResult (Inr n) now)"
  have w2: "w2 = w\<lparr>isLoading := True,
                   balanceUpdates := [\<lparr>timestamp = now, balance = lamportsToSol (JNum (of_nat n)),
                      lamports = JNum (of_nat n), slot = None\<rparr>],
                   reconnectAttempts := 0,
                   isIntentionalCloseRef := False, currentAddressRef := address w,
                   currentBalance := Some (JNum (of_nat n)),
                   sockets := sockets w @ [\<lparr>readyState = CONNECTING, walletAddress = address w,
                      renderAttempts = reconnectAttempts w\<rparr>],
                   wsRef := Some k, connectionStatus := Connecting,
                   trace := trace w @ [HttpGetBalance (address w), WsNew k],
                   pendingStart := AwaitSubscribe k\<rparr>"
    unfolding w2_def w1 k_def using assms(6)
    by (simp add: balanceSettled_def subscribeToAccountUpdates_def emit_def Let_def)
  define w4 where "w4 = step pk (step pk w2 (WsError k)) (WsClose k)"
  have w4: "map fst (timeouts w4) = map fst (timeouts w) @ [Suc (timerCount w)] \<and>
            reconnectTimeoutRef w4 = Some (Suc (timerCount w)) \<and>
            connectionStatus w4 = Connecting \<and>
            (\<exists>ms. last (trace w4) = SetTimeout (Suc (timerCount w)) ms)"
    unfolding w4_def w2 k_def
    by (simp add: onerror_def onclose_def attemptReconnect_def Let_def platform_defs nth_append
        split: option.split)
  have rc: "run pk w [UserStart, BalanceResult (Inr n) now, WsError (length (sockets w)),
                      WsClose (length (sockets w))] = w4"
    unfolding w4_def w2_def w1_def k_def by (simp add: run_def del: step.simps)
  show ?thesis
    unfolding rf rc using w4 assms(1) by (simp add: f)
qed

theorem failed_start_paths_witness:
  "trace (run PublicKey mounted [UserStart, BalanceResult (Inl ''Network request failed'') 1]) =
     [HttpGetBalance systemProgram, Alert ''Error'' ''Network request failed''] \<and>
   \<not> isStreaming (run PublicKey mounted [UserStart, BalanceResult (Inl ''Network request failed'') 1]) \<and>
   sockets (run PublicKey mounted [UserStart, BalanceResult (Inl ''Network request failed'') 1]) = [] \<and>
   timeouts (run PublicKey mounted [UserStart, BalanceResult (Inl ''Network request failed'') 1]) = [] \<and>
   map fst (timeouts (run PublicKey mounted
      [UserStart, BalanceResult (Inr 5) 1, WsError 0, WsClose 0])) = [1] \<and>
   connectionStatus (run PublicKey mounted
      [UserStart, BalanceResult (Inr 5) 1, WsError 0, WsClose 0]) = Connecting"
  using failed_start_paths [OF mounted_can_start, of "''Network request failed''" 1 5]
  by (simp add: mounted_sockets)

text \<open>
  C2 as stated fails for a transport that cannot be established: after the socket of
  the first start errors and closes without having opened, no alert has been raised,
  \<open>isLoading\<close> is still set (the promise the start awaits is never settled), the status
  is \<open>Connecting\<close>, and a reconnect timer of 1000 ms is pending.
\<close>

theorem failed_connect_schedules_reconnect:
  "trace (run PublicKey mounted [UserStart, BalanceResult (Inr 5) 1, WsError 0, WsClose 0]) =
     [HttpGetBalance systemProgram, WsNew 0, SetTimeout 1 1000] \<and>
   timeouts (run PublicKey mounted [UserStart, BalanceResult (Inr 5) 1, WsError 0, WsClose 0]) =
     [(1, 0)] \<and>
   pendingStart (run PublicKey mounted [UserStart, BalanceResult (Inr 5) 1, WsError 0, WsClose 0]) =
     AwaitSubscribe 0 \<and>
   isLoading (run PublicKey mounted [UserStart, BalanceResult (Inr 5) 1, WsError 0, WsClose 0]) \<and>
   connectionStatus (run PublicKey mounted [UserStart, BalanceResult (Inr 5) 1, WsError 0, WsClose 0]) =
     Connecting"
  by (simp add: eval_facts)

subsection \<open>Reconnect delays\<close>

lemma backoffMs_values:
  "map backoffMs [0, 1, 2, 3, 4, 5, 6] = [1000, 2000, 4000, 8000, 16000, 30000, 30000]"
  by (simp add: backoffMs_def)

lemma backoffMs_mono: "m \<le> n \<Longrightarrow> backoffMs m \<le> backoffMs n"
  by (simp add: backoffMs_def min_le_iff_disj)

lemma attemptReconnect_counts:
  assumes "\<not> isIntentionalCloseRef w"
  shows "reconnectAttempts (attemptReconnect c w) = reconnectAttempts w + 1 \<and>
         trace (attemptReconnect c w) = trace w @ [SetTimeout (Suc (timerCount w)) (backoffMs c)]"
  using assms by (simp add: attemptReconnect_def Let_def)

lemma onopen_resets_counter: "reconnectAttempts (fst (onopen pk k w)) = 0"
  by (simp add: onopen_def startPingInterval_def resolveStart_def Let_def platform_defs
      split: option.split ready_state.split)

text \<open>
  C3 on the code. The streaming session loses its socket, the reconnect attempt fails
  (its socket closes without opening), and a second attempt is scheduled. The counter
  shown to the user goes to 2, but both delays are 1000 ms: \<open>attemptReconnect\<close> computes
  the delay from the \<open>reconnectAttempts\<close> of the render that started the session, which
  stays 0. The comment in the code announces 1s, 2s, 4s, 8s, 16s, 30s.
\<close>

theorem backoff_delay_is_constant:
  "delays (trace (run PublicKey streaming [WsClose 0, TimeoutFire 2, WsClose 1])) = [1000, 1000] \<and>
   reconnectAttempts (run PublicKey streaming [WsClose 0, TimeoutFire 2, WsClose 1]) = 2 \<and>
   backoffMs 1 = 2000"
  unfolding streaming_state
  by (simp add: eval_facts)

subsection \<open>Events after a stop\<close>

text \<open>
  What \<open>handleStopStreaming\<close> does achieve. If no start is suspended and no socket other
  than the current one is still connecting, the session is at rest after the stop, and
  stays so under every event but a new start: no socket is created, no subscribe
  request is sent, and the status never becomes \<open>Connecting\<close>. A pending reconnect timer
  and the close event of the socket just closed are both stopped by the flag.
\<close>

lemma subscribesSent_append:
  "subscribesSent (xs @ ys) = subscribesSent xs @ subscribesSent ys"
  by (induction xs rule: subscribesSent.induct) simp_all

lemma list_all_update:
  "list_all P xs \<Longrightarrow> P x \<Longrightarrow> list_all P (xs[k := x])"
  using set_update_subset_insert [of xs k x] by (auto simp add: list_all_iff)

lemma keepalive_method: "get keepaliveRequest ''method'' \<noteq> JStr ''accountSubscribe''"
  by (simp add: keepaliveRequest_def)

lemma unsubscribe_method: "get (unsubscribeRequest sid) ''method'' \<noteq> JStr ''accountSubscribe''"
  by (simp add: unsubscribeRequest_def)

lemma quiescent_cleanup:
  assumes "quiescent w"
  shows "quiescent (cleanupConnection w) \<and>
         subscribesSent (trace (cleanupConnection w)) = subscribesSent (trace w) \<and>
         length (sockets (cleanupConnection w)) = length (sockets w)"
  using assms
  by (simp add: quiescent_def cleanupConnection_def Let_def platform_defs subscribesSent_append
      list_all_update split: option.split ready_state.split)

lemma quiescent_send:
  assumes "quiescent w" "get msg ''method'' \<noteq> JStr ''accountSubscribe''"
  shows "quiescent (fst (ws_send k msg w)) \<and>
         subscribesSent (trace (fst (ws_send k msg w))) = subscribesSent (trace w) \<and>
         length (sockets (fst (ws_send k msg w))) = length (sockets w)"
  using assms
  by (simp add: quiescent_def platform_defs subscribesSent_append split: ready_state.split)

lemma quiescent_stop:
  assumes "quiescent w"
  shows "quiescent (handleStopStreaming w) \<and>
         subscribesSent (trace (handleStopStreaming w)) = subscribesSent (trace w) \<and>
         length (sockets (handleStopStreaming w)) = length (sockets w)"
proof -
  define w2 where "w2 = (case wsRef w of
                  None \<Rightarrow> w\<lparr>isIntentionalCloseRef := True\<rparr>
                | Some k \<Rightarrow>
                    (case subscriptionIdRef w of
                       None \<Rightarrow> w\<lparr>isIntentionalCloseRef := True\<rparr>
                     | Some sid \<Rightarrow> fst (ws_send k (unsubscribeRequest sid)
                          (w\<lparr>isIntentionalCloseRef := True\<rparr>))))"
  have q1: "quiescent (w\<lparr>isIntentionalCloseRef := True\<rparr>)"
    using assms by (simp add: quiescent_def)
  have w2: "quiescent w2 \<and> subscribesSent (trace w2) = subscribesSent (trace w) \<and>
            length (sockets w2) = length (sockets w)"
    unfolding w2_def using q1 quiescent_send [OF q1 unsubscribe_method]
    by (simp split: option.split)
  have c: "quiescent (cleanupConnection w2) \<and>
         subscribesSent (trace (cleanupConnection w2)) = subscribesSent (trace w) \<and>
         length (sockets (cleanupConnection w2)) = length (sockets w)"
    using quiescent_cleanup [of w2] w2 by simp
  have e: "handleStopStreaming w = (cleanupConnection w2)
      \<lparr>isStreaming := False, connectionStatus := Disconnected, reconnectAttempts := 0\<rparr>"
    unfolding w2_def by (simp add: handleStopStreaming_def Let_def split: option.split)
  show ?thesis
    unfolding e using c by (simp add: quiescent_def)
qed

lemma quiescent_step:
  assumes "quiescent w" "e \<noteq> UserStart"
  shows "quiescent (step pk w e) \<and>
         subscribesSent (trace (step pk w e)) = subscribesSent (trace w) \<and>
         length (sockets (step pk w e)) = length (sockets w)"
proof (cases e)
  case (UserSetAddress a)
  then show ?thesis using assms by (simp add: quiescent_def)
next
  case UserStart
  then show ?thesis using assms by simp
next
  case UserStop
  then show ?thesis using assms quiescent_stop [of w] by simp
next
  case (BalanceResult outcome now)
  then show ?thesis using assms by (simp add: quiescent_def balanceSettled_def)
next
  case (WsOpen k)
  have "socketState w k \<noteq> CONNECTING"
    using assms(1) by (auto simp add: quiescent_def socketState_def list_all_length)
  then show ?thesis using WsOpen assms by simp
next
  case (WsMessage k payload now)
  then show ?thesis using assms
    by (simp add: quiescent_def onmessage_def finish_def Let_def emit_def subscribesSent_append
        split: option.split)
next
  case (WsError k)
  then show ?thesis using assms by (simp add: quiescent_def onerror_def)
next
  case (WsClose k)
  then show ?thesis using assms
    by (simp add: quiescent_def onclose_def Let_def platform_defs subscribesSent_append
        list_all_update split: option.split)
next
  case (TimeoutFire t)
  then show ?thesis using assms
    by (simp add: quiescent_def reconnectCallback_def split: option.split)
next
  case (IntervalFire i)
  then show ?thesis using assms quiescent_send [OF assms(1) keepalive_method]
    by (simp add: pingCallback_def split: option.split)
qed

lemma quiescent_run:
  assumes "quiescent w" "UserStart \<notin> set es"
  shows "quiescent (run pk w es) \<and>
         subscribesSent (trace (run pk w es)) = subscribesSent (trace w) \<and>
         length (sockets (run pk w es)) = length (sockets w)"
  using assms
proof (induction es arbitrary: w)
  case Nil
  then show ?case by (simp add: run_def)
next
  case (Cons e es)
  from Cons.prems have ne: "e \<noteq> UserStart" and rest: "UserStart \<notin> set es" by auto
  note s = quiescent_step [OF Cons.prems(1) ne, of pk]
  from s have q: "quiescent (step pk w e)" by simp
  note r = Cons.IH [OF q rest]
  show ?case
    unfolding run_Cons using r s by simp
qed

lemma sockets_cleanup:
  "sockets (cleanupConnection w) =
     (case wsRef w of
        None \<Rightarrow> sockets w
      | Some k \<Rightarrow>
          if k < length (sockets w) \<and> readyState (sockets w ! k) \<in> {CONNECTING, OPEN}
          then (sockets w)[k := (sockets w ! k)\<lparr>readyState := CLOSING\<rparr>]
          else sockets w)"
  by (simp add: cleanupConnection_def Let_def platform_defs split: option.split ready_state.split)

lemma stop_fields:
  "sockets (handleStopStreaming w) = sockets (cleanupConnection w) \<and>
   isIntentionalCloseRef (handleStopStreaming w) \<and>
   pendingStart (handleStopStreaming w) = pendingStart w \<and>
   connectionStatus (handleStopStreaming w) = Disconnected"
  by (simp add: handleStopStreaming_def cleanupConnection_def Let_def platform_defs
      split: option.split ready_state.split)

lemma stop_makes_quiescent:
  assumes "pendingStart w = NoStart"
    "\<forall>j < length (sockets w). Some j \<noteq> wsRef w \<longrightarrow> readyState (sockets w ! j) \<noteq> CONNECTING"
  shows "quiescent (handleStopStreaming w)"
proof -
  have "list_all (\<lambda>s. readyState s \<noteq> CONNECTING) (sockets (cleanupConnection w))"
    using assms(2)
    by (auto simp add: sockets_cleanup list_all_length nth_list_update split: option.split)
  then show ?thesis
    using assms(1) stop_fields [of w] by (simp add: quiescent_def)
qed

lemma stop_suppresses_reconnect:
  assumes "pendingStart w = NoStart"
    "\<forall>j < length (sockets w). Some j \<noteq> wsRef w \<longrightarrow> readyState (sockets w ! j) \<noteq> CONNECTING"
    "UserStart \<notin> set es"
  shows "subscribesSent (trace (run pk (handleStopStreaming w) es)) =
           subscribesSent (trace (handleStopStreaming w)) \<and>
         length (sockets (run pk (handleStopStreaming w) es)) = length (sockets w) \<and>
         connectionStatus (run pk (handleStopStreaming w) es) \<noteq> Connecting"
proof -
  have q: "quiescent (handleStopStreaming w)"
    using assms(1,2) by (rule stop_makes_quiescent)
  have l: "length (sockets (handleStopStreaming w)) = length (sockets w)"
    by (simp add: stop_fields sockets_cleanup split: option.split)
  show ?thesis
    using quiescent_run [OF q assms(3), of pk] l by (simp add: quiescent_def)
qed

lemma stop_while_reconnect_pending:
  "timeouts (run PublicKey streaming [WsClose 0]) = [(2, 0)] \<and>
   timeouts (run PublicKey streaming [WsClose 0, UserStop]) = [] \<and>
   quiescent (run PublicKey streaming [WsClose 0, UserStop])"
  unfolding streaming_state
  by (simp add: eval_facts quiescent_def)

text \<open>
  C4 on the code. In \<open>restarted\<close> the session is streaming on socket 2 while socket 1,
  created by the reconnect timer of the previous session's late close event, is still
  connecting and referenced by nothing. The stop button closes socket 2 only. When
  socket 1 then opens, \<open>ws.onopen\<close>, which does not look at the intentional-close flag,
  sets the status to \<open>Connected\<close> and sends a subscribe request.
\<close>

theorem subscribe_after_stop:
  "isStreaming restarted \<and>
   isIntentionalCloseRef (run PublicKey restarted [UserStop]) \<and>
   subscribesSent (trace (run PublicKey restarted [UserStop])) = [0, 2] \<and>
   subscribesSent (trace (run PublicKey restarted [UserStop, WsOpen 1])) = [0, 2, 1] \<and>
   connectionStatus (run PublicKey restarted [UserStop, WsOpen 1]) = Connected"
  unfolding restarted_state
  by (simp add: eval_facts)

subsection \<open>How records are built\<close>
















end
